theory Spec2Isabelle
  imports Main "HOL-Library.Word"
begin

section \<open>Go values shared by both packages\<close>

text \<open>
  A Go \<open>error\<close> is an interface value: \<open>nil\<close> is \<open>None\<close>, anything else is \<open>Some e\<close>.
  The two sentinels the source compares against are \<open>io.EOF\<close> and \<open>io.ErrClosedPipe\<close>;
  \<open>ErrWrap\<close> is an error that wraps another one (\<open>fmt.Errorf("...%w", inner)\<close>), which
  \<open>errors.Is\<close> looks through and \<open>==\<close> does not.
\<close>

datatype go_error = EOF | ErrClosedPipe | ErrOther string | ErrWrap string go_error

fun error_chain_has :: "go_error \<Rightarrow> go_error \<Rightarrow> bool" where
  "error_chain_has (ErrWrap m inner) target =
     (ErrWrap m inner = target \<or> error_chain_has inner target)"
| "error_chain_has err target = (err = target)"

text \<open>\<open>errors.Is(err, target)\<close> of the standard library, for errors that define no
  \<open>Is\<close> method of their own: equality anywhere along the chain of wrapped errors.\<close>

fun errors_Is :: "go_error option \<Rightarrow> go_error option \<Rightarrow> bool" where
  "errors_Is None target = (target = None)"
| "errors_Is (Some err) None = False"
| "errors_Is (Some err) (Some target) = error_chain_has err target"

text \<open>
  logrus: an entry written through a logger is its level, the fields of the logger
  (\<open>WithField\<close>, \<open>WithFields\<close>), the error attached by \<open>WithError\<close> and the message.
\<close>

datatype log_level = DebugLevel | InfoLevel | WarnLevel | ErrorLevel

datatype log_entry = LogEntry log_level "(string \<times> string) list" "go_error option" string

text \<open>\<open>WithFields\<close> (and \<open>WithField\<close>, its one-field case): the new fields are added to
  those of the logger, and a field of the logger with the key of a new one is replaced by
  it.\<close>

definition WithFields ::
  "(string \<times> string) list \<Rightarrow> (string \<times> string) list \<Rightarrow> (string \<times> string) list" where
  "WithFields base extra =
     filter (\<lambda>kv. fst kv \<notin> set (map fst extra)) base @ extra"

section \<open>The media engine's types (pion/webrtc), as far as the source reads them\<close>

record RTPCodecCapability =
  MimeType :: string
  ClockRate :: "32 word"
  Channels :: "16 word"
  SDPFmtpLine :: string
  RTCPFeedback :: "(string \<times> string) list"

record RTPCodecParameters =
  RTPCodecCapability :: RTPCodecCapability
  PayloadType :: "8 word"

datatype RTPCodecType = RTPCodecTypeAudio | RTPCodecTypeVideo | RTPCodecTypeUnknown

fun RTPCodecType_String :: "RTPCodecType \<Rightarrow> string" where
  "RTPCodecType_String RTPCodecTypeAudio = ''audio''"
| "RTPCodecType_String RTPCodecTypeVideo = ''video''"
| "RTPCodecType_String RTPCodecTypeUnknown = ''unknown''"

text \<open>A remote (inbound) track; the fields are what its getters \<open>Codec()\<close>, \<open>ID()\<close>,
  \<open>StreamID()\<close> and \<open>Kind()\<close> return.\<close>

record TrackRemote =
  Codec :: RTPCodecParameters
  ID :: string
  StreamID :: string
  Kind :: RTPCodecType

text \<open>A local (outbound) track, \<open>webrtc.TrackLocalStaticRTP\<close>: the three values it was
  created from.\<close>

record TrackLocalStaticRTP =
  tl_codec :: RTPCodecCapability
  tl_id :: string
  tl_streamID :: string

text \<open>
  \<open>webrtc.NewTrackLocalStaticRTP(c, id, streamID)\<close>. The engine decides whether the
  creation fails (\<open>failure\<close>); on success the track holds the three arguments in the
  order they were passed. The Go pair (pointer, error) is the sum: \<open>Inl\<close> is a non-nil
  error with a nil pointer, \<open>Inr\<close> a track with a nil error.
\<close>

definition NewTrackLocalStaticRTP ::
  "go_error option \<Rightarrow> RTPCodecCapability \<Rightarrow> string \<Rightarrow> string
     \<Rightarrow> go_error + TrackLocalStaticRTP" where
  "NewTrackLocalStaticRTP failure c trackID streamID =
     (case failure of
        Some e \<Rightarrow> Inl e
      | None \<Rightarrow> Inr \<lparr>tl_codec = c, tl_id = trackID, tl_streamID = streamID\<rparr>)"

datatype PeerConnectionState =
    PeerConnectionStateNew
  | PeerConnectionStateConnecting
  | PeerConnectionStateConnected
  | PeerConnectionStateDisconnected
  | PeerConnectionStateFailed
  | PeerConnectionStateClosed
  | PeerConnectionStateUnknown

fun PeerConnectionState_String :: "PeerConnectionState \<Rightarrow> string" where
  "PeerConnectionState_String PeerConnectionStateNew = ''new''"
| "PeerConnectionState_String PeerConnectionStateConnecting = ''connecting''"
| "PeerConnectionState_String PeerConnectionStateConnected = ''connected''"
| "PeerConnectionState_String PeerConnectionStateDisconnected = ''disconnected''"
| "PeerConnectionState_String PeerConnectionStateFailed = ''failed''"
| "PeerConnectionState_String PeerConnectionStateClosed = ''closed''"
| "PeerConnectionState_String PeerConnectionStateUnknown = ''unknown''"

datatype SDPType = SDPTypeOffer | SDPTypePranswer | SDPTypeAnswer | SDPTypeRollback

record SessionDescription =
  sd_Type :: SDPType
  SDP :: string

type_synonym ICECandidate = string

type_synonym RTPSender = nat

text \<open>Every operation the source invokes on a \<open>webrtc.PeerConnection\<close>, with its
  arguments. A connection is its state (what \<open>ConnectionState()\<close> returns) and the
  operations it has been asked to perform, in order.\<close>

datatype pc_call =
    CreateOffer
  | SetLocalDescription SessionDescription
  | AddTrack "TrackLocalStaticRTP option"
  | RemoveTrack "RTPSender option"

record PeerConnection =
  ConnectionState :: PeerConnectionState
  operations :: "pc_call list"

definition invoke :: "pc_call \<Rightarrow> PeerConnection \<Rightarrow> PeerConnection" where
  "invoke c pc = pc\<lparr>operations := operations pc @ [c]\<rparr>"

text \<open>
  A data channel of the engine. The four handler slots hold the closure registered by
  \<open>OnOpen\<close>, \<open>OnMessage\<close>, \<open>OnError\<close> and \<open>OnClose\<close>; the closures of the source are
  named by \<open>dc_closure\<close> and defined below as functions on the peer.
\<close>

datatype dc_closure = OpenClosure | MessageClosure | ErrorClosure | CloseClosure

record DataChannel =
  Label :: string
  dc_closed :: bool
  onOpenHandler :: "dc_closure option"
  onMessageHandler :: "dc_closure option"
  onErrorHandler :: "dc_closure option"
  onCloseHandler :: "dc_closure option"

record webrtc_DataChannelMessage =
  IsString :: bool
  Data :: "8 word list"

section \<open>Package peer: the messages\<close>

type_synonym CallHangupReason = string

definition CallHangupUserHangup :: CallHangupReason where
  "CallHangupUserHangup = ''user_hangup''"

type_synonym RTCPPacketType = int

definition PictureLossIndicator :: RTCPPacketType where
  "PictureLossIndicator = 0 + 1"

definition FullIntraRequest :: RTCPPacketType where
  "FullIntraRequest = 1 + 1"

datatype MessageContent =
    JoinedTheCall
  | LeftTheCall CallHangupReason
  | NewTrackPublished TrackLocalStaticRTP
  | PublishedTrackFailed TrackLocalStaticRTP
  | NewICECandidate ICECandidate
  | ICEGatheringComplete
  | RenegotiationRequired SessionDescription
  | DataChannelMessage string
  | DataChannelAvailable
  | RTCPReceived string "RTCPPacketType list"

section \<open>Package peer: the peer and its callbacks (pkg/peer/webrtc.go)\<close>

text \<open>
  The state a \<open>Peer\<close> callback reads and writes; the fields are those the callbacks
  use (\<open>p.logger\<close>, \<open>p.sink\<close>, \<open>p.dataChannel\<close>, \<open>p.peerConnection\<close>), with
  what the engine holds for them. \<open>logger\<close> is the fields of the peer's
  logrus entry and \<open>log_out\<close> what has been written through it; \<open>sink\<close> is the messages
  handed to the peer's sink, in order; \<open>dataChannel\<close> is the pointer field (\<open>None\<close> is
  \<open>nil\<close>); \<open>channels\<close> is the engine's data-channel objects by address;
  \<open>forwarded\<close> is the payloads handed to \<open>localTrack.Write\<close>, in order. The mutex
  around \<open>dataChannel\<close> is not modelled: each callback runs to its end here.
\<close>

record Peer =
  logger :: "(string \<times> string) list"
  log_out :: "log_entry list"
  sink :: "MessageContent list"
  dataChannel :: "nat option"
  channels :: "nat \<Rightarrow> DataChannel"
  peerConnection :: PeerConnection
  forwarded :: "8 word list list"

definition log_write ::
  "log_level \<Rightarrow> (string \<times> string) list \<Rightarrow> go_error option \<Rightarrow> string \<Rightarrow> Peer \<Rightarrow> Peer" where
  "log_write lvl extra err msg p =
     p\<lparr>log_out := log_out p @ [LogEntry lvl (WithFields (logger p) extra) err msg]\<rparr>"

text \<open>Modelled from the spec: the type of the peer's sink is declared in neither
  the file of the callbacks nor that of the messages; the spec gives it a single
  ``deliver one event'' operation, fire-and-forget, so \<open>Send\<close> appends the message to
  what the sink has been given.\<close>

definition Send :: "MessageContent \<Rightarrow> Peer \<Rightarrow> Peer" where
  "Send msg p = p\<lparr>sink := sink p @ [msg]\<rparr>"

subsection \<open>onRtpTrackReceived and its forwarding goroutine\<close>

text \<open>
  What the engine answers to the goroutine: the \<open>k\<close>-th \<open>remoteTrack.Read(rtpBuf)\<close>
  returns the buffer's new contents, the index and the error; the \<open>k\<close>-th
  \<open>localTrack.Write\<close> of a payload returns its error.
\<close>

record rtp_io =
  Read :: "nat \<Rightarrow> 8 word list \<times> nat \<times> go_error option"
  Write :: "nat \<Rightarrow> 8 word list \<Rightarrow> go_error option"

datatype go_panic = SliceBoundsOutOfRange | NilPointerDereference

text \<open>
  The body of \<open>go func() { ... }()\<close>, from its \<open>k\<close>-th iteration on. \<open>None\<close> is a loop that
  never ends, \<open>Some (Inr p)\<close> a \<open>return\<close>, \<open>Some (Inl _)\<close> the panic of \<open>rtpBuf[:index]\<close>
  when the engine's index exceeds the 1400 bytes of the buffer.
\<close>

partial_function (option) forwardingLoop ::
  "rtp_io \<Rightarrow> TrackLocalStaticRTP \<Rightarrow> nat \<Rightarrow> Peer \<Rightarrow> (go_panic + Peer) option" where
  "forwardingLoop io localTrack k p =
     (case Read io k of
        (rtpBuf, index, readErr) \<Rightarrow>
          if readErr \<noteq> None then
            Some (Inr (Send (PublishedTrackFailed localTrack)
              (if readErr = Some EOF
               then log_write InfoLevel [] None ''remote track closed'' p
               else log_write ErrorLevel [] readErr ''failed to read from remote track'' p)))
          else if index > 1400 then Some (Inl SliceBoundsOutOfRange)
          else
            (let err = Write io k (take index rtpBuf);
                 p' = p\<lparr>forwarded := forwarded p @ [take index rtpBuf]\<rparr> in
             if err \<noteq> None \<and> \<not> errors_Is err (Some ErrClosedPipe) then
               Some (Inr (Send (PublishedTrackFailed localTrack)
                 (log_write ErrorLevel [] err ''failed to write to local track'' p')))
             else forwardingLoop io localTrack (Suc k) p'))"

text \<open>
  The callback itself. \<open>creation\<close> is the engine's answer to the track creation; the
  parameter \<open>receiver\<close> of the source is never read and is left out. The result is the
  peer after the callback returns and the local track of the goroutine it started
  (\<open>None\<close> when it started none).
\<close>

definition onRtpTrackReceived ::
  "go_error option \<Rightarrow> TrackRemote \<Rightarrow> Peer \<Rightarrow> Peer \<times> TrackLocalStaticRTP option" where
  "onRtpTrackReceived creation remoteTrack p =
     (case NewTrackLocalStaticRTP creation
             (RTPCodecCapability (Codec remoteTrack)) (ID remoteTrack) (StreamID remoteTrack) of
        Inl err \<Rightarrow> (log_write ErrorLevel [] (Some err) ''failed to create local track'' p, None)
      | Inr localTrack \<Rightarrow> (Send (NewTrackPublished localTrack) p, Some localTrack))"

subsection \<open>onICECandidateGathered, onNegotiationNeeded, onConnectionStateChanged\<close>

definition onICECandidateGathered :: "ICECandidate option \<Rightarrow> Peer \<Rightarrow> Peer" where
  "onICECandidateGathered candidate p =
     (case candidate of
        None \<Rightarrow>
          Send ICEGatheringComplete
            (log_write InfoLevel [] None ''ICE candidate gathering finished'' p)
      | Some c \<Rightarrow>
          Send (NewICECandidate c)
            (log_write DebugLevel [(''candidate'', c)] None ''ICE candidate gathered'' p))"

text \<open>What the engine answers to \<open>CreateOffer(nil)\<close> and to \<open>SetLocalDescription\<close>.\<close>

record offer_engine =
  CreateOffer_result :: "go_error + SessionDescription"
  SetLocalDescription_result :: "SessionDescription \<Rightarrow> go_error option"

definition onNegotiationNeeded :: "offer_engine \<Rightarrow> Peer \<Rightarrow> Peer" where
  "onNegotiationNeeded eng p =
     (let p1 = log_write DebugLevel [] None ''negotiation needed'' p;
          p2 = p1\<lparr>peerConnection := invoke CreateOffer (peerConnection p1)\<rparr> in
      case CreateOffer_result eng of
        Inl err \<Rightarrow> log_write ErrorLevel [] (Some err) ''failed to create offer'' p2
      | Inr offer \<Rightarrow>
          (let p3 = p2\<lparr>peerConnection := invoke (SetLocalDescription offer) (peerConnection p2)\<rparr>;
               err = SetLocalDescription_result eng offer in
           if err \<noteq> None then
             log_write ErrorLevel [] err ''failed to set local description'' p3
           else Send (RenegotiationRequired offer) p3))"

definition onConnectionStateChanged :: "PeerConnectionState \<Rightarrow> Peer \<Rightarrow> Peer" where
  "onConnectionStateChanged state p =
     (let p1 = log_write InfoLevel [] None
                 (''Connection state changed: '' @ PeerConnectionState_String state) p in
      if state = PeerConnectionStateFailed \<or> state = PeerConnectionStateDisconnected
           \<or> state = PeerConnectionStateClosed then
        Send (LeftTheCall CallHangupUserHangup) p1
      else if state = PeerConnectionStateConnected then Send JoinedTheCall p1
      else p1)"

subsection \<open>onDataChannelReady\<close>

definition DataChannel_Close :: "nat \<Rightarrow> Peer \<Rightarrow> Peer" where
  "DataChannel_Close dc p =
     p\<lparr>channels := (channels p)(dc := (channels p dc)\<lparr>dc_closed := True\<rparr>)\<rparr>"

definition OnOpen :: "nat \<Rightarrow> dc_closure \<Rightarrow> Peer \<Rightarrow> Peer" where
  "OnOpen dc f p =
     p\<lparr>channels := (channels p)(dc := (channels p dc)\<lparr>onOpenHandler := Some f\<rparr>)\<rparr>"

definition OnMessage :: "nat \<Rightarrow> dc_closure \<Rightarrow> Peer \<Rightarrow> Peer" where
  "OnMessage dc f p =
     p\<lparr>channels := (channels p)(dc := (channels p dc)\<lparr>onMessageHandler := Some f\<rparr>)\<rparr>"

definition OnError :: "nat \<Rightarrow> dc_closure \<Rightarrow> Peer \<Rightarrow> Peer" where
  "OnError dc f p =
     p\<lparr>channels := (channels p)(dc := (channels p dc)\<lparr>onErrorHandler := Some f\<rparr>)\<rparr>"

definition OnClose :: "nat \<Rightarrow> dc_closure \<Rightarrow> Peer \<Rightarrow> Peer" where
  "OnClose dc f p =
     p\<lparr>channels := (channels p)(dc := (channels p dc)\<lparr>onCloseHandler := Some f\<rparr>)\<rparr>"

text \<open>
  \<open>dc\<close> is the address of the channel the engine hands over. When a channel is already
  bound, the source logs and calls \<open>p.dataChannel.Close()\<close>: the receiver of \<open>Close\<close> is
  the field, that is the channel bound before, not the argument \<open>dc\<close>.
\<close>

definition onDataChannelReady :: "nat \<Rightarrow> Peer \<Rightarrow> Peer" where
  "onDataChannelReady dc p =
     (case dataChannel p of
        Some bound \<Rightarrow>
          DataChannel_Close bound
            (log_write ErrorLevel [] None ''Data channel already exists'' p)
      | None \<Rightarrow>
          (let p1 = p\<lparr>dataChannel := Some dc\<rparr>;
               p2 = log_write DebugLevel [(''label'', Label (channels p1 dc))] None
                      ''Data channel ready'' p1 in
           OnClose dc CloseClosure
             (OnError dc ErrorClosure
               (OnMessage dc MessageClosure
                 (OnOpen dc OpenClosure p2)))))"

text \<open>The four closures the callback registers, and the engine firing an event of a
  channel: it runs the closure in the slot, if there is one.\<close>

datatype dc_event =
    Opened
  | Message webrtc_DataChannelMessage
  | Errored go_error
  | Closed

definition string_of_bytes :: "8 word list \<Rightarrow> string" where
  "string_of_bytes bs = map (\<lambda>b. char_of (unat b)) bs"

fun run_closure :: "dc_closure \<Rightarrow> dc_event \<Rightarrow> Peer \<Rightarrow> Peer" where
  "run_closure OpenClosure Opened p =
     Send DataChannelAvailable (log_write DebugLevel [] None ''Data channel opened'' p)"
| "run_closure MessageClosure (Message msg) p =
     (if IsString msg then Send (DataChannelMessage (string_of_bytes (Data msg))) p
      else log_write WarnLevel [] None ''Data channel message is not a string, ignoring'' p)"
| "run_closure ErrorClosure (Errored err) p =
     log_write ErrorLevel [] (Some err) ''Data channel error'' p"
| "run_closure CloseClosure Closed p =
     log_write InfoLevel [] None ''Data channel closed'' p"
| "run_closure f ev p = p"

definition fire :: "nat \<Rightarrow> dc_event \<Rightarrow> Peer \<Rightarrow> Peer" where
  "fire dc ev p =
     (let slot = (case ev of
                    Opened \<Rightarrow> onOpenHandler (channels p dc)
                  | Message m \<Rightarrow> onMessageHandler (channels p dc)
                  | Errored e \<Rightarrow> onErrorHandler (channels p dc)
                  | Closed \<Rightarrow> onCloseHandler (channels p dc)) in
      case slot of None \<Rightarrow> p | Some f \<Rightarrow> run_closure f ev p)"

section \<open>Package main: the subscriber\<close>

text \<open>
  Pointers to \<open>Subscriber\<close>, \<open>Publisher\<close> and \<open>Call\<close> objects are addresses into three
  stores; an address without an object stands for \<open>nil\<close>, and dereferencing it panics.
  The \<open>sync.RWMutex\<close> of a subscriber is not modelled: each operation runs to its end.
\<close>

record Subscriber =
  Track :: "TrackLocalStaticRTP option"
  s_logger :: "(string \<times> string) list"
  call :: nat
  sender :: "RTPSender option"
  publisher :: "nat option"

text \<open>Modelled from the spec: the declaration of \<open>Publisher\<close> is missing from the
  file that declares \<open>Subscriber\<close>. The source reads its field \<open>Track\<close> (a
  \<open>*webrtc.TrackRemote\<close>); the spec gives it the live set of the subscribers attached to
  it.\<close>

record Publisher =
  pub_Track :: TrackRemote
  pub_subscribers :: "nat set"

text \<open>Modelled from the spec: the declaration of \<open>Call\<close> is missing from the file
  that declares \<open>Subscriber\<close>. The source reads its fields \<open>PeerConnection\<close> and
  \<open>logger\<close>; the spec gives it a bookkeeping collection of subscribers.\<close>

record Call =
  PeerConnection :: PeerConnection
  call_logger :: "(string \<times> string) list"
  call_subscribers :: "nat set"

record World =
  subscribers :: "nat \<rightharpoonup> Subscriber"
  publishers :: "nat \<rightharpoonup> Publisher"
  calls :: "nat \<rightharpoonup> Call"
  written :: "log_entry list"

text \<open>What the engine answers to the track creation, to \<open>AddTrack\<close> and to
  \<open>RemoveTrack\<close>. \<open>RemoveTrack\<close> returns an error or \<open>nil\<close> (\<open>Inr\<close>), or it panics (\<open>Inl\<close>):
  pion's \<open>RemoveTrack\<close> looks for the transceiver whose sender is the argument and stops
  that sender, so a \<open>nil\<close> argument on a connection that holds a transceiver without a
  sender ends in a \<open>nil\<close> dereference.\<close>

record track_engine =
  NewTrack_failure :: "go_error option"
  AddTrack_result :: "TrackLocalStaticRTP option \<Rightarrow> go_error + RTPSender"
  RemoveTrack_result :: "RTPSender option \<Rightarrow> go_panic + go_error option"

definition write_log :: "log_entry \<Rightarrow> World \<Rightarrow> World" where
  "write_log e w = w\<lparr>written := written w @ [e]\<rparr>"

definition call_invoke :: "nat \<Rightarrow> pc_call \<Rightarrow> World \<Rightarrow> World" where
  "call_invoke c op w =
     (case calls w c of
        None \<Rightarrow> w
      | Some cl \<Rightarrow> w\<lparr>calls := (calls w)(c \<mapsto> cl\<lparr>PeerConnection := invoke op (PeerConnection cl)\<rparr>)\<rparr>)"

text \<open>\<open>new(Subscriber)\<close> at the address \<open>addr\<close> the allocator picks.\<close>

definition NewSubscriber :: "nat \<Rightarrow> nat \<Rightarrow> World \<Rightarrow> go_panic + World" where
  "NewSubscriber addr c w =
     (case calls w c of
        None \<Rightarrow> Inl NilPointerDereference
      | Some cl \<Rightarrow>
          Inr (w\<lparr>subscribers := (subscribers w)(addr \<mapsto>
                 \<lparr>Track = None, s_logger = call_logger cl, call = c,
                  sender = None, publisher = None\<rparr>)\<rparr>))"

definition initLoggingWithTrack :: "Call \<Rightarrow> TrackRemote \<Rightarrow> (string \<times> string) list" where
  "initLoggingWithTrack cl track =
     WithFields (call_logger cl)
       [(''track_id'', ID track),
        (''track_kind'', RTPCodecType_String (Kind track)),
        (''stream_id'', StreamID track)]"

text \<open>Modelled from the spec: the body of \<open>Publisher.AddSubscriber\<close> is missing; the
  spec has it register the subscriber in the publisher's live subscriber set.\<close>

definition AddSubscriber :: "nat \<Rightarrow> nat \<Rightarrow> World \<Rightarrow> World" where
  "AddSubscriber pub s w =
     (case publishers w pub of
        None \<Rightarrow> w
      | Some pb \<Rightarrow>
          w\<lparr>publishers := (publishers w)(pub \<mapsto>
               pb\<lparr>pub_subscribers := insert s (pub_subscribers pb)\<rparr>)\<rparr>)"

text \<open>Modelled from the spec: the body of \<open>Call.RemoveSubscriber\<close> is missing. The spec
  has \<open>Unsubscribe\<close>, once the sender is dealt with, remove the subscriber from its
  publisher's live set and from the call-level bookkeeping collection; the source does
  nothing at that point but call this method on the subscriber, so the method is given
  these two steps. The publisher is the one the subscriber references.\<close>

definition RemoveSubscriber :: "nat \<Rightarrow> nat \<Rightarrow> World \<Rightarrow> World" where
  "RemoveSubscriber c s w =
     (let w1 = (case calls w c of
                  None \<Rightarrow> w
                | Some cl \<Rightarrow>
                    w\<lparr>calls := (calls w)(c \<mapsto>
                         cl\<lparr>call_subscribers := call_subscribers cl - {s}\<rparr>)\<rparr>) in
      case subscribers w1 s of
        None \<Rightarrow> w1
      | Some sub \<Rightarrow>
          (case publisher sub of
             None \<Rightarrow> w1
           | Some pub \<Rightarrow>
               (case publishers w1 pub of
                  None \<Rightarrow> w1
                | Some pb \<Rightarrow>
                    w1\<lparr>publishers := (publishers w1)(pub \<mapsto>
                          pb\<lparr>pub_subscribers := pub_subscribers pb - {s}\<rparr>)\<rparr>)))"

definition Subscribe :: "track_engine \<Rightarrow> nat \<Rightarrow> nat \<Rightarrow> World \<Rightarrow> go_panic + World" where
  "Subscribe eng s pub w =
     (case (subscribers w s, publishers w pub) of
        (Some sub, Some pb) \<Rightarrow>
          (case calls w (call sub) of
             None \<Rightarrow> Inl NilPointerDereference
           | Some cl \<Rightarrow>
               (let lg = initLoggingWithTrack cl (pub_Track pb);
                    created = NewTrackLocalStaticRTP (NewTrack_failure eng)
                                (RTPCodecCapability (Codec (pub_Track pb)))
                                (ID (pub_Track pb))
                                (StreamID (pub_Track pb));
                    track = (case created of Inl e \<Rightarrow> None | Inr t \<Rightarrow> Some t);
                    w1 = (case created of
                            Inl e \<Rightarrow> write_log (LogEntry ErrorLevel lg (Some e)
                                       ''failed to create local static RTP track'') w
                          | Inr t \<Rightarrow> w);
                    added = AddTrack_result eng track;
                    sd = (case added of Inl e \<Rightarrow> None | Inr x \<Rightarrow> Some x);
                    w2 = call_invoke (call sub) (AddTrack track) w1;
                    w3 = (case added of
                            Inl e \<Rightarrow> write_log (LogEntry ErrorLevel lg (Some e)
                                       ''failed to add track to peer connection'') w2
                          | Inr x \<Rightarrow> w2);
                    w4 = w3\<lparr>subscribers := (subscribers w3)(s \<mapsto>
                           sub\<lparr>s_logger := lg, Track := track, sender := sd,
                               publisher := Some pub\<rparr>)\<rparr>;
                    w5 = AddSubscriber pub s w4 in
                Inr (write_log (LogEntry InfoLevel lg None ''subscribed'') w5)))
      | _ \<Rightarrow> Inl NilPointerDereference)"

text \<open>A panic of the engine's \<open>RemoveTrack\<close> is not recovered: it ends \<open>Unsubscribe\<close>
  before the subscriber is removed from anything.\<close>

definition Unsubscribe :: "track_engine \<Rightarrow> nat \<Rightarrow> World \<Rightarrow> go_panic + World" where
  "Unsubscribe eng s w =
     (case subscribers w s of
        None \<Rightarrow> Inl NilPointerDereference
      | Some sub \<Rightarrow>
          (case calls w (call sub) of
             None \<Rightarrow> Inl NilPointerDereference
           | Some cl \<Rightarrow>
               (let removal =
                      (if ConnectionState (PeerConnection cl) \<noteq> PeerConnectionStateClosed then
                         (case RemoveTrack_result eng (sender sub) of
                            Inl pn \<Rightarrow> Inl pn
                          | Inr err \<Rightarrow>
                              (let w' = call_invoke (call sub) (RemoveTrack (sender sub)) w in
                               if err \<noteq> None then
                                 Inr (write_log (LogEntry ErrorLevel (s_logger sub) err
                                        ''failed to remove track'') w')
                               else Inr w'))
                       else Inr w) in
                case removal of
                  Inl pn \<Rightarrow> Inl pn
                | Inr w1 \<Rightarrow>
                    Inr (write_log (LogEntry InfoLevel (s_logger sub) None ''unsubscribed'')
                          (RemoveSubscriber (call sub) s w1)))))"

section \<open>Vocabulary of the statements\<close>

subsection \<open>Iterations of the forwarding goroutine\<close>

text \<open>
  What the \<open>k\<close>-th iteration meets: a failed read; an index within the buffer; the payload
  it hands to the local track and the error the write returns; a write failure that
  \<open>errors.Is\<close> classifies as \<open>io.ErrClosedPipe\<close> (no subscriber is attached), and a write
  failure of any other kind.
\<close>

definition read_failure :: "rtp_io \<Rightarrow> nat \<Rightarrow> bool" where
  "read_failure io k = (snd (snd (Read io k)) \<noteq> None)"

definition in_bounds :: "rtp_io \<Rightarrow> nat \<Rightarrow> bool" where
  "in_bounds io k = (fst (snd (Read io k)) \<le> 1400)"

definition payload :: "rtp_io \<Rightarrow> nat \<Rightarrow> 8 word list" where
  "payload io k = take (fst (snd (Read io k))) (fst (Read io k))"

definition write_error :: "rtp_io \<Rightarrow> nat \<Rightarrow> go_error option" where
  "write_error io k = Write io k (payload io k)"

definition no_consumer :: "rtp_io \<Rightarrow> nat \<Rightarrow> bool" where
  "no_consumer io k = (write_error io k \<noteq> None \<and> errors_Is (write_error io k) (Some ErrClosedPipe))"

definition other_write_failure :: "rtp_io \<Rightarrow> nat \<Rightarrow> bool" where
  "other_write_failure io k = (write_error io k \<noteq> None \<and> \<not> errors_Is (write_error io k) (Some ErrClosedPipe))"

text \<open>An iteration after which the loop goes round again, and one at which it returns.\<close>

definition keeps_going :: "rtp_io \<Rightarrow> nat \<Rightarrow> bool" where
  "keeps_going io k =
     (\<not> read_failure io k \<and> in_bounds io k \<and> (write_error io k = None \<or> no_consumer io k))"

definition ends_loop :: "rtp_io \<Rightarrow> nat \<Rightarrow> bool" where
  "ends_loop io k = (read_failure io k \<or> (in_bounds io k \<and> other_write_failure io k))"

subsection \<open>Observations on the subscriber side\<close>

text \<open>
  The publisher a subscriber references and the live set of a publisher after an
  operation (nothing when the operation panicked), the call-level collection of a call
  and the operations requested from its connection.
\<close>

definition publisher_of :: "nat \<Rightarrow> go_panic + World \<Rightarrow> nat option" where
  "publisher_of s r =
     (case r of
        Inl e \<Rightarrow> None
      | Inr w \<Rightarrow> (case subscribers w s of None \<Rightarrow> None | Some sub \<Rightarrow> publisher sub))"

definition live_subscribers :: "nat \<Rightarrow> go_panic + World \<Rightarrow> nat set" where
  "live_subscribers pub r =
     (case r of
        Inl e \<Rightarrow> {}
      | Inr w \<Rightarrow> (case publishers w pub of None \<Rightarrow> {} | Some pb \<Rightarrow> pub_subscribers pb))"

definition bookkeeping :: "World \<Rightarrow> nat \<Rightarrow> nat set option" where
  "bookkeeping w c = map_option call_subscribers (calls w c)"

definition requested :: "World \<Rightarrow> nat \<Rightarrow> pc_call list" where
  "requested w c = (case calls w c of None \<Rightarrow> [] | Some cl \<Rightarrow> operations (PeerConnection cl))"

subsection \<open>Sample inputs\<close>

definition opus :: RTPCodecCapability where
  "opus = \<lparr>MimeType = ''audio/opus'', ClockRate = 48000, Channels = 2,
           SDPFmtpLine = ''minptime=10'', RTCPFeedback = []\<rparr>"

definition microphone :: TrackRemote where
  "microphone = \<lparr>Codec = \<lparr>RTPCodecCapability = opus, PayloadType = 111\<rparr>,
                 ID = ''audio0'', StreamID = ''stream0'', Kind = RTPCodecTypeAudio\<rparr>"

definition relay_track :: TrackLocalStaticRTP where
  "relay_track = \<lparr>tl_codec = opus, tl_id = ''audio0'', tl_streamID = ''stream0''\<rparr>"

definition idle_channel :: DataChannel where
  "idle_channel = \<lparr>Label = ''signalling'', dc_closed = False, onOpenHandler = None,
                   onMessageHandler = None, onErrorHandler = None, onCloseHandler = None\<rparr>"

definition new_peer :: Peer where
  "new_peer = \<lparr>logger = [], log_out = [], sink = [], dataChannel = None,
               channels = (\<lambda>a. idle_channel),
               peerConnection = \<lparr>ConnectionState = PeerConnectionStateNew, operations = []\<rparr>,
               forwarded = []\<rparr>"

text \<open>Two packets arrive while nobody is subscribed, then the remote track ends.\<close>

definition two_packets_then_eof :: rtp_io where
  "two_packets_then_eof =
     \<lparr>Read = (\<lambda>k. if k < 2 then ([1, 2, 3], 3, None) else ([], 0, Some EOF)),
      Write = (\<lambda>k payload. Some ErrClosedPipe)\<rparr>"

definition an_offer :: SessionDescription where
  "an_offer = \<lparr>sd_Type = SDPTypeOffer, SDP = ''v=0''\<rparr>"

definition offering_engine :: offer_engine where
  "offering_engine = \<lparr>CreateOffer_result = Inr an_offer,
                      SetLocalDescription_result = (\<lambda>d. None)\<rparr>"

definition stale_engine :: offer_engine where
  "stale_engine = \<lparr>CreateOffer_result = Inr an_offer,
                   SetLocalDescription_result = (\<lambda>d. Some (ErrOther ''invalid state''))\<rparr>"

definition closed_engine :: offer_engine where
  "closed_engine = \<lparr>CreateOffer_result = Inl (ErrOther ''connection closed''),
                    SetLocalDescription_result = (\<lambda>d. None)\<rparr>"

definition willing_engine :: track_engine where
  "willing_engine = \<lparr>NewTrack_failure = None, AddTrack_result = (\<lambda>t. Inr 7),
                     RemoveTrack_result = (\<lambda>sd. Inr None)\<rparr>"

definition refusing_engine :: track_engine where
  "refusing_engine =
     \<lparr>NewTrack_failure = None,
      AddTrack_result = (\<lambda>t. Inl (ErrOther ''connection closed'')),
      RemoveTrack_result = (\<lambda>sd. Inr (Some (ErrOther ''sender not created by connection'')))\<rparr>"

text \<open>An engine whose connection holds a transceiver without a sender: \<open>RemoveTrack(nil)\<close>
  panics, \<open>RemoveTrack\<close> of a sender succeeds.\<close>

definition receiving_engine :: track_engine where
  "receiving_engine =
     \<lparr>NewTrack_failure = None,
      AddTrack_result = (\<lambda>t. Inl (ErrOther ''unsupported codec'')),
      RemoveTrack_result =
        (\<lambda>sd. case sd of None \<Rightarrow> Inl NilPointerDereference | Some x \<Rightarrow> Inr None)\<rparr>"

definition bobs_call :: Call where
  "bobs_call = \<lparr>PeerConnection = \<lparr>ConnectionState = PeerConnectionStateConnected, operations = []\<rparr>,
                call_logger = [(''user_id'', ''bob'')], call_subscribers = {1}\<rparr>"

text \<open>One call at address 5, one publisher at address 10, no subscriber yet.\<close>

definition small_world :: World where
  "small_world = \<lparr>subscribers = Map.empty,
                  publishers = [10 \<mapsto> \<lparr>pub_Track = microphone, pub_subscribers = {}\<rparr>],
                  calls = [5 \<mapsto> bobs_call],
                  written = []\<rparr>"

definition fresh_subscriber :: Subscriber where
  "fresh_subscriber = \<lparr>Track = None, s_logger = [(''user_id'', ''bob'')], call = 5,
                       sender = None, publisher = None\<rparr>"

definition world_with_subscriber :: World where
  "world_with_subscriber = small_world\<lparr>subscribers := [1 \<mapsto> fresh_subscriber]\<rparr>"

definition attached_world :: World where
  "attached_world =
     \<lparr>subscribers = [1 \<mapsto> \<lparr>Track = Some relay_track, s_logger = [(''user_id'', ''bob'')],
                             call = 5, sender = Some 7, publisher = Some 10\<rparr>],
      publishers = [10 \<mapsto> \<lparr>pub_Track = microphone, pub_subscribers = {1}\<rparr>],
      calls = [5 \<mapsto> bobs_call],
      written = []\<rparr>"

text \<open>The same subscriber as a \<open>Subscribe\<close> whose \<open>AddTrack\<close> failed leaves it: a track, a
  publisher, a place in the publisher's live set, and no sender.\<close>

definition half_attached_world :: World where
  "half_attached_world =
     \<lparr>subscribers = [1 \<mapsto> \<lparr>Track = Some relay_track, s_logger = [(''user_id'', ''bob'')],
                             call = 5, sender = None, publisher = Some 10\<rparr>],
      publishers = [10 \<mapsto> \<lparr>pub_Track = microphone, pub_subscribers = {1}\<rparr>],
      calls = [5 \<mapsto> bobs_call],
      written = []\<rparr>"

section \<open>Logging\<close>

lemma WithFields_Nil [simp]: "WithFields base [] = base"
  by (simp add: WithFields_def)

section \<open>The forwarding goroutine\<close>

text \<open>Whenever the goroutine returns, it has handed exactly one message to the sink,
  the terminal one, and that as its last act.\<close>

lemma loop_sink:
  assumes "forwardingLoop io lt k p = Some r"
  shows "case r of Inl e \<Rightarrow> True | Inr p' \<Rightarrow> sink p' = sink p @ [PublishedTrackFailed lt]"
proof (rule forwardingLoop.raw_induct
    [where P = "\<lambda>io lt k p r. case r of Inl e \<Rightarrow> True
                  | Inr p' \<Rightarrow> sink p' = sink p @ [PublishedTrackFailed lt]", OF _ assms])
  fix loop io lt k p r
  assume IH: "\<And>io lt k p r. loop io lt k p = Some r \<Longrightarrow>
                (case r of Inl e \<Rightarrow> True | Inr p' \<Rightarrow> sink p' = sink p @ [PublishedTrackFailed lt])"
    and body: "(case Read io k of
        (rtpBuf, index, readErr) \<Rightarrow>
          if readErr \<noteq> None then
            Some (Inr (Send (PublishedTrackFailed lt)
              (if readErr = Some EOF
               then log_write InfoLevel [] None ''remote track closed'' p
               else log_write ErrorLevel [] readErr ''failed to read from remote track'' p)))
          else if index > 1400 then Some (Inl SliceBoundsOutOfRange)
          else
            (let err = Write io k (take index rtpBuf);
                 p' = p\<lparr>forwarded := forwarded p @ [take index rtpBuf]\<rparr> in
             if err \<noteq> None \<and> \<not> errors_Is err (Some ErrClosedPipe) then
               Some (Inr (Send (PublishedTrackFailed lt)
                 (log_write ErrorLevel [] err ''failed to write to local track'' p')))
             else loop io lt (Suc k) p')) = Some r"
  show "case r of Inl e \<Rightarrow> True | Inr p' \<Rightarrow> sink p' = sink p @ [PublishedTrackFailed lt]"
    using body
    by (auto simp: Let_def Send_def log_write_def split: prod.splits if_splits sum.splits dest!: IH)
qed

text \<open>One iteration, by what it meets.\<close>

lemma loop_read_failure:
  "read_failure io k \<Longrightarrow> \<exists>p'. forwardingLoop io lt k p = Some (Inr p') \<and> sink p' = sink p @ [PublishedTrackFailed lt]
     \<and> forwarded p' = forwarded p"
  by (subst forwardingLoop.simps) (auto simp: read_failure_def Send_def log_write_def split: prod.splits)

lemma loop_other_write_failure:
  "\<not> read_failure io k \<Longrightarrow> in_bounds io k \<Longrightarrow> other_write_failure io k \<Longrightarrow>
   \<exists>p'. forwardingLoop io lt k p = Some (Inr p') \<and> sink p' = sink p @ [PublishedTrackFailed lt]
     \<and> forwarded p' = forwarded p @ [payload io k]"
  by (subst forwardingLoop.simps) (auto simp: read_failure_def in_bounds_def other_write_failure_def write_error_def payload_def Let_def Send_def log_write_def split: prod.splits)

lemma loop_continue:
  "\<not> read_failure io k \<Longrightarrow> in_bounds io k \<Longrightarrow> \<not> other_write_failure io k \<Longrightarrow>
   forwardingLoop io lt k p = forwardingLoop io lt (Suc k) (p\<lparr>forwarded := forwarded p @ [payload io k]\<rparr>)"
  by (subst forwardingLoop.simps) (auto simp: read_failure_def in_bounds_def other_write_failure_def write_error_def payload_def Let_def split: prod.splits)

lemma loop_panic:
  "\<not> read_failure io k \<Longrightarrow> \<not> in_bounds io k \<Longrightarrow>
   forwardingLoop io lt k p = Some (Inl SliceBoundsOutOfRange)"
  by (subst forwardingLoop.simps) (auto simp: read_failure_def in_bounds_def split: prod.splits)

lemma keeps_going_step:
  "keeps_going io k \<Longrightarrow>
   forwardingLoop io lt k p = forwardingLoop io lt (Suc k) (p\<lparr>forwarded := forwarded p @ [payload io k]\<rparr>)"
  by (rule loop_continue) (auto simp: keeps_going_def other_write_failure_def no_consumer_def)

text \<open>Any number of iterations that go round leave the sink and the log as they were;
  only the payloads handed to the local track accumulate.\<close>

lemma loop_survives:
  "(\<forall>j<n. keeps_going io (k + j)) \<Longrightarrow>
   forwardingLoop io lt k p =
     forwardingLoop io lt (k + n) (p\<lparr>forwarded := forwarded p @ map (payload io) [k..<k + n]\<rparr>)"
proof (induction n arbitrary: k p)
  case 0
  then show ?case by simp
next
  case (Suc n)
  have first: "keeps_going io k" using Suc.prems by (metis add.right_neutral zero_less_Suc)
  have rest: "\<forall>j<n. keeps_going io (Suc k + j)" using Suc.prems by (metis Suc_less_eq add_Suc_shift)
  have "forwardingLoop io lt k p =
          forwardingLoop io lt (Suc k) (p\<lparr>forwarded := forwarded p @ [payload io k]\<rparr>)"
    by (rule keeps_going_step [OF first])
  also have "\<dots> = forwardingLoop io lt (Suc k + n)
          (p\<lparr>forwarded := forwarded p @ [payload io k] @ map (payload io) [Suc k..<Suc k + n]\<rparr>)"
    using Suc.IH [OF rest, of "p\<lparr>forwarded := forwarded p @ [payload io k]\<rparr>"] by simp
  also have "[payload io k] @ map (payload io) [Suc k..<Suc k + n] = map (payload io) [k..<k + Suc n]"
    by (simp add: upt_rec [of k])
  finally show ?case by simp
qed

lemma ends_loop_returns:
  "ends_loop io k \<Longrightarrow>
   \<exists>p'. forwardingLoop io lt k p = Some (Inr p') \<and> sink p' = sink p @ [PublishedTrackFailed lt]"
  using loop_read_failure [of io k lt p] loop_other_write_failure [of io k lt p]
  by (auto simp: ends_loop_def)

text \<open>A goroutine that returns has met an iteration that does not go round; one that
  never meets such an iteration never returns.\<close>

lemma loop_stops_somewhere:
  assumes "forwardingLoop io lt k p = Some r"
  shows "\<exists>n\<ge>k. \<not> keeps_going io n"
proof (rule forwardingLoop.raw_induct
    [where P = "\<lambda>io lt k p r. \<exists>n\<ge>k. \<not> keeps_going io n", OF _ assms])
  fix loop io lt k p r
  assume IH: "\<And>io lt k p r. loop io lt k p = Some r \<Longrightarrow> \<exists>n\<ge>k. \<not> keeps_going io n"
    and body: "(case Read io k of
        (rtpBuf, index, readErr) \<Rightarrow>
          if readErr \<noteq> None then
            Some (Inr (Send (PublishedTrackFailed lt)
              (if readErr = Some EOF
               then log_write InfoLevel [] None ''remote track closed'' p
               else log_write ErrorLevel [] readErr ''failed to read from remote track'' p)))
          else if index > 1400 then Some (Inl SliceBoundsOutOfRange)
          else
            (let err = Write io k (take index rtpBuf);
                 p' = p\<lparr>forwarded := forwarded p @ [take index rtpBuf]\<rparr> in
             if err \<noteq> None \<and> \<not> errors_Is err (Some ErrClosedPipe) then
               Some (Inr (Send (PublishedTrackFailed lt)
                 (log_write ErrorLevel [] err ''failed to write to local track'' p')))
             else loop io lt (Suc k) p')) = Some r"
  show "\<exists>n\<ge>k. \<not> keeps_going io n"
  proof (cases "keeps_going io k")
    case False
    then show ?thesis by blast
  next
    case True
    then have "loop io lt (Suc k) (p\<lparr>forwarded := forwarded p @ [payload io k]\<rparr>) = Some r"
      using body
      by (auto simp: keeps_going_def read_failure_def in_bounds_def no_consumer_def
            write_error_def payload_def Let_def split: prod.splits if_splits)
    from IH [OF this] obtain n where "n \<ge> Suc k" "\<not> keeps_going io n" by blast
    then show ?thesis by (meson Suc_leD)
  qed
qed

lemma loop_forever:
  "(\<forall>j. keeps_going io j) \<Longrightarrow> forwardingLoop io lt k p = None"
  using loop_stops_somewhere [of io lt k p] by (cases "forwardingLoop io lt k p") auto

text \<open>
  Claim C1. When the relay track of a remote track is created, \<open>onRtpTrackReceived\<close>
  hands exactly one \<open>NewTrackPublished\<close> for it to the sink before it starts the
  goroutine, and the goroutine, whatever the engine answers and from whatever iteration
  and peer state it is observed, hands exactly one \<open>PublishedTrackFailed\<close> for the same
  track to the sink when it returns. It does return as soon as an iteration meets a read
  failure (end of stream included) or a write failure other than ``no consumer''.
\<close>

theorem published_track_one_event_each:
  assumes "creation = None"
  shows "\<exists>localTrack.
           snd (onRtpTrackReceived creation remoteTrack p) = Some localTrack
         \<and> sink (fst (onRtpTrackReceived creation remoteTrack p)) =
             sink p @ [NewTrackPublished localTrack]
         \<and> (\<forall>io k p0 p2. forwardingLoop io localTrack k p0 = Some (Inr p2) \<longrightarrow>
               sink p2 = sink p0 @ [PublishedTrackFailed localTrack])
         \<and> (\<forall>io n p0. (\<forall>j<n. keeps_going io j) \<and> ends_loop io n \<longrightarrow>
               (\<exists>p2. forwardingLoop io localTrack 0 p0 = Some (Inr p2)))"
proof -
  define localTrack where
    "localTrack = \<lparr>tl_codec = RTPCodecCapability (Codec remoteTrack), tl_id = ID remoteTrack,
                   tl_streamID = StreamID remoteTrack\<rparr>"
  have cb: "onRtpTrackReceived creation remoteTrack p =
              (Send (NewTrackPublished localTrack) p, Some localTrack)"
    using assms by (simp add: onRtpTrackReceived_def NewTrackLocalStaticRTP_def localTrack_def)
  have once: "\<And>io k p0 p2. forwardingLoop io localTrack k p0 = Some (Inr p2) \<Longrightarrow>
                sink p2 = sink p0 @ [PublishedTrackFailed localTrack]"
    using loop_sink by fastforce
  have ends: "\<exists>p2. forwardingLoop io localTrack 0 p0 = Some (Inr p2)"
    if "\<forall>j<n. keeps_going io j" and "ends_loop io n" for io n p0
  proof -
    have "forwardingLoop io localTrack 0 p0 =
            forwardingLoop io localTrack n (p0\<lparr>forwarded := forwarded p0 @ map (payload io) [0..<n]\<rparr>)"
      using loop_survives [of n io 0 localTrack p0] that(1) by simp
    then show ?thesis using ends_loop_returns [OF that(2)] by metis
  qed
  have started: "snd (onRtpTrackReceived creation remoteTrack p) = Some localTrack"
    using cb by simp
  have announced: "sink (fst (onRtpTrackReceived creation remoteTrack p)) =
                     sink p @ [NewTrackPublished localTrack]"
    using cb by (simp add: Send_def)
  have once': "\<forall>io k p0 p2. forwardingLoop io localTrack k p0 = Some (Inr p2) \<longrightarrow>
                 sink p2 = sink p0 @ [PublishedTrackFailed localTrack]"
    using once by blast
  have ends': "\<forall>io n p0. (\<forall>j<n. keeps_going io j) \<and> ends_loop io n \<longrightarrow>
                 (\<exists>p2. forwardingLoop io localTrack 0 p0 = Some (Inr p2))"
    using ends by blast
  from started announced once' ends' show ?thesis by blast
qed

theorem published_track_one_event_each_witness:
  "\<exists>localTrack p2.
       snd (onRtpTrackReceived None microphone new_peer) = Some localTrack
     \<and> forwardingLoop two_packets_then_eof localTrack 0
          (fst (onRtpTrackReceived None microphone new_peer)) = Some (Inr p2)
     \<and> sink p2 = [NewTrackPublished localTrack, PublishedTrackFailed localTrack]"
proof -
  obtain localTrack where
    task: "snd (onRtpTrackReceived None microphone new_peer) = Some localTrack"
    and first: "sink (fst (onRtpTrackReceived None microphone new_peer)) =
                  sink new_peer @ [NewTrackPublished localTrack]"
    and once: "\<forall>io k p0 p2. forwardingLoop io localTrack k p0 = Some (Inr p2) \<longrightarrow>
                 sink p2 = sink p0 @ [PublishedTrackFailed localTrack]"
    and ends: "\<forall>io n p0. (\<forall>j<n. keeps_going io j) \<and> ends_loop io n \<longrightarrow>
                 (\<exists>p2. forwardingLoop io localTrack 0 p0 = Some (Inr p2))"
    using published_track_one_event_each [of None microphone new_peer] by blast
  have going: "\<forall>j<2. keeps_going two_packets_then_eof j"
    by (simp add: keeps_going_def read_failure_def in_bounds_def no_consumer_def
          write_error_def payload_def two_packets_then_eof_def)
  have stop: "ends_loop two_packets_then_eof 2"
    by (simp add: ends_loop_def read_failure_def two_packets_then_eof_def)
  from ends going stop obtain p2 where
    run: "forwardingLoop two_packets_then_eof localTrack 0
            (fst (onRtpTrackReceived None microphone new_peer)) = Some (Inr p2)"
    by blast
  from once run first have "sink p2 = [NewTrackPublished localTrack, PublishedTrackFailed localTrack]"
    by (simp add: new_peer_def)
  with task run show ?thesis by blast
qed

text \<open>
  Claim C5. While every iteration reads a packet and its write either succeeds or fails
  as ``no consumer'', the goroutine keeps running: after \<open>n\<close> such iterations it stands
  at iteration \<open>n\<close> with the sink and the log untouched and the \<open>n\<close> payloads forwarded.
  If iteration \<open>n\<close> then meets a read failure or a write failure of another kind, the
  goroutine returns with the terminal \<open>PublishedTrackFailed\<close> as its only message; if no
  iteration ever does, it never returns.
\<close>

theorem forwarding_loop_survives_no_consumer:
  assumes "\<forall>j<n. keeps_going io j"
  shows "forwardingLoop io localTrack 0 p =
           forwardingLoop io localTrack n
             (p\<lparr>forwarded := forwarded p @ map (payload io) [0..<n]\<rparr>)
       \<and> (ends_loop io n \<longrightarrow>
            (\<exists>p'. forwardingLoop io localTrack 0 p = Some (Inr p')
                 \<and> sink p' = sink p @ [PublishedTrackFailed localTrack]))
       \<and> ((\<forall>j. keeps_going io j) \<longrightarrow> forwardingLoop io localTrack 0 p = None)"
proof -
  have run: "forwardingLoop io localTrack 0 p =
           forwardingLoop io localTrack n
             (p\<lparr>forwarded := forwarded p @ map (payload io) [0..<n]\<rparr>)"
    using loop_survives [of n io 0 localTrack p] assms by simp
  have stop: "\<exists>p'. forwardingLoop io localTrack 0 p = Some (Inr p')
                 \<and> sink p' = sink p @ [PublishedTrackFailed localTrack]" if "ends_loop io n"
    using ends_loop_returns [OF that, of localTrack
            "p\<lparr>forwarded := forwarded p @ map (payload io) [0..<n]\<rparr>"] run
    by simp
  show ?thesis using run stop loop_forever by blast
qed

theorem forwarding_loop_survives_no_consumer_witness:
  "no_consumer two_packets_then_eof 0 \<and> no_consumer two_packets_then_eof 1
   \<and> forwardingLoop two_packets_then_eof relay_track 0 new_peer =
       forwardingLoop two_packets_then_eof relay_track 2
         (new_peer\<lparr>forwarded := [[1, 2, 3], [1, 2, 3]]\<rparr>)
   \<and> (\<exists>p'. forwardingLoop two_packets_then_eof relay_track 0 new_peer = Some (Inr p')
          \<and> sink p' = [PublishedTrackFailed relay_track])"
proof -
  have nc: "no_consumer two_packets_then_eof 0 \<and> no_consumer two_packets_then_eof 1"
    by (simp add: no_consumer_def write_error_def two_packets_then_eof_def)
  have going: "\<forall>j<2. keeps_going two_packets_then_eof j"
    by (simp add: keeps_going_def read_failure_def in_bounds_def no_consumer_def
          write_error_def payload_def two_packets_then_eof_def)
  have stop: "ends_loop two_packets_then_eof 2"
    by (simp add: ends_loop_def read_failure_def two_packets_then_eof_def)
  have pl: "map (payload two_packets_then_eof) [0..<2] = [[1, 2, 3], [1, 2, 3]]"
    by (simp add: payload_def two_packets_then_eof_def upt_rec numeral_2_eq_2)
  have fwd: "new_peer\<lparr>forwarded := forwarded new_peer @ map (payload two_packets_then_eof) [0..<2]\<rparr>
               = new_peer\<lparr>forwarded := [[1, 2, 3], [1, 2, 3]]\<rparr>"
    using pl by (simp add: new_peer_def)
  note inst = forwarding_loop_survives_no_consumer [OF going, of relay_track new_peer]
  from inst have run: "forwardingLoop two_packets_then_eof relay_track 0 new_peer =
       forwardingLoop two_packets_then_eof relay_track 2
         (new_peer\<lparr>forwarded := [[1, 2, 3], [1, 2, 3]]\<rparr>)"
    unfolding fwd by (rule conjunct1)
  from inst stop have "\<exists>p'. forwardingLoop two_packets_then_eof relay_track 0 new_peer = Some (Inr p')
          \<and> sink p' = sink new_peer @ [PublishedTrackFailed relay_track]"
    by blast
  then have fin: "\<exists>p'. forwardingLoop two_packets_then_eof relay_track 0 new_peer = Some (Inr p')
          \<and> sink p' = [PublishedTrackFailed relay_track]"
    by (simp add: new_peer_def)
  from nc run fin show ?thesis by blast
qed

section \<open>The other callbacks of the peer\<close>

text \<open>
  Claim C6. \<open>onNegotiationNeeded\<close> hands \<open>RenegotiationRequired\<close> with the created offer
  to the sink exactly when both \<open>CreateOffer\<close> and \<open>SetLocalDescription\<close> succeed. When
  either fails the error is logged, nothing is sent, and the connection has been asked
  once only: one \<open>CreateOffer\<close>, and one \<open>SetLocalDescription\<close> if the offer was created.
\<close>

theorem negotiation_needed_event:
  "sink (onNegotiationNeeded eng p) =
     (case CreateOffer_result eng of
        Inl e \<Rightarrow> sink p
      | Inr offer \<Rightarrow>
          if SetLocalDescription_result eng offer = None
          then sink p @ [RenegotiationRequired offer] else sink p)
   \<and> log_out (onNegotiationNeeded eng p) =
       log_out p @ LogEntry DebugLevel (logger p) None ''negotiation needed'' #
         (case CreateOffer_result eng of
            Inl e \<Rightarrow> [LogEntry ErrorLevel (logger p) (Some e) ''failed to create offer'']
          | Inr offer \<Rightarrow>
              (case SetLocalDescription_result eng offer of
                 None \<Rightarrow> []
               | Some e \<Rightarrow>
                   [LogEntry ErrorLevel (logger p) (Some e) ''failed to set local description'']))
   \<and> operations (peerConnection (onNegotiationNeeded eng p)) =
       operations (peerConnection p) @
         (case CreateOffer_result eng of
            Inl e \<Rightarrow> [CreateOffer]
          | Inr offer \<Rightarrow> [CreateOffer, SetLocalDescription offer])"
  by (simp add: onNegotiationNeeded_def Let_def log_write_def Send_def invoke_def
        split: sum.splits option.splits)

theorem negotiation_needed_event_witness:
  "sink (onNegotiationNeeded offering_engine new_peer) = [RenegotiationRequired an_offer]
   \<and> sink (onNegotiationNeeded stale_engine new_peer) = []
   \<and> sink (onNegotiationNeeded closed_engine new_peer) = []
   \<and> operations (peerConnection (onNegotiationNeeded stale_engine new_peer)) =
       [CreateOffer, SetLocalDescription an_offer]
   \<and> operations (peerConnection (onNegotiationNeeded closed_engine new_peer)) = [CreateOffer]"
  using negotiation_needed_event [of offering_engine new_peer]
    negotiation_needed_event [of stale_engine new_peer]
    negotiation_needed_event [of closed_engine new_peer]
  by (simp add: offering_engine_def stale_engine_def closed_engine_def new_peer_def)

text \<open>
  Claim C7. \<open>onConnectionStateChanged\<close> sends \<open>LeftTheCall\<close> with the one reason
  \<open>CallHangupUserHangup\<close> for Failed, Disconnected and Closed alike, \<open>JoinedTheCall\<close> for
  Connected, and nothing for any other state; two Connected notifications in a row send
  \<open>JoinedTheCall\<close> twice.
\<close>

theorem connection_state_changed_event:
  "sink (onConnectionStateChanged state p) =
     sink p @
       (if state = PeerConnectionStateFailed \<or> state = PeerConnectionStateDisconnected
            \<or> state = PeerConnectionStateClosed
        then [LeftTheCall CallHangupUserHangup]
        else if state = PeerConnectionStateConnected then [JoinedTheCall]
        else [])
   \<and> sink (onConnectionStateChanged PeerConnectionStateConnected
             (onConnectionStateChanged PeerConnectionStateConnected p)) =
       sink p @ [JoinedTheCall, JoinedTheCall]"
  by (simp add: onConnectionStateChanged_def Let_def log_write_def Send_def)

theorem connection_state_changed_event_witness:
  "sink (onConnectionStateChanged PeerConnectionStateFailed new_peer) = [LeftTheCall ''user_hangup'']
   \<and> sink (onConnectionStateChanged PeerConnectionStateDisconnected new_peer) =
       [LeftTheCall ''user_hangup'']
   \<and> sink (onConnectionStateChanged PeerConnectionStateClosed new_peer) = [LeftTheCall ''user_hangup'']
   \<and> sink (onConnectionStateChanged PeerConnectionStateConnected new_peer) = [JoinedTheCall]
   \<and> sink (onConnectionStateChanged PeerConnectionStateConnecting new_peer) = []
   \<and> sink (onConnectionStateChanged PeerConnectionStateNew new_peer) = []"
  using connection_state_changed_event [of PeerConnectionStateFailed new_peer]
    connection_state_changed_event [of PeerConnectionStateDisconnected new_peer]
    connection_state_changed_event [of PeerConnectionStateClosed new_peer]
    connection_state_changed_event [of PeerConnectionStateConnected new_peer]
    connection_state_changed_event [of PeerConnectionStateConnecting new_peer]
    connection_state_changed_event [of PeerConnectionStateNew new_peer]
  by (simp add: new_peer_def CallHangupUserHangup_def)

text \<open>
  Claim C8. What \<open>onDataChannelReady\<close> does when a channel is already bound and a
  different channel \<open>dc\<close> is announced: the field keeps the bound channel, the rejection
  is logged and nothing is sent, and no handler is registered on \<open>dc\<close>; but the channel
  that gets closed is the bound one, and \<open>dc\<close> is left exactly as the engine handed it
  over, still open.
\<close>

theorem second_channel_ready_closes_bound_channel:
  assumes "dataChannel p = Some bound" and "dc \<noteq> bound"
  shows "dataChannel (onDataChannelReady dc p) = Some bound
       \<and> dc_closed (channels (onDataChannelReady dc p) bound)
       \<and> channels (onDataChannelReady dc p) dc = channels p dc
       \<and> sink (onDataChannelReady dc p) = sink p
       \<and> log_out (onDataChannelReady dc p) =
           log_out p @ [LogEntry ErrorLevel (logger p) None ''Data channel already exists'']"
  using assms by (simp add: onDataChannelReady_def DataChannel_Close_def log_write_def)

theorem second_channel_ready_closes_bound_channel_witness:
  "dataChannel (onDataChannelReady 1 new_peer) = Some 1
   \<and> channels (onDataChannelReady 1 new_peer) 1 =
       \<lparr>Label = ''signalling'', dc_closed = False, onOpenHandler = Some OpenClosure,
        onMessageHandler = Some MessageClosure, onErrorHandler = Some ErrorClosure,
        onCloseHandler = Some CloseClosure\<rparr>
   \<and> dataChannel (onDataChannelReady 2 (onDataChannelReady 1 new_peer)) = Some 1
   \<and> dc_closed (channels (onDataChannelReady 2 (onDataChannelReady 1 new_peer)) 1)
   \<and> channels (onDataChannelReady 2 (onDataChannelReady 1 new_peer)) 2 = idle_channel
   \<and> fire 2 Opened (onDataChannelReady 2 (onDataChannelReady 1 new_peer)) =
       onDataChannelReady 2 (onDataChannelReady 1 new_peer)"
proof -
  have bound: "dataChannel (onDataChannelReady 1 new_peer) = Some 1"
    by (simp add: onDataChannelReady_def new_peer_def Let_def OnOpen_def OnMessage_def
          OnError_def OnClose_def log_write_def)
  have first: "channels (onDataChannelReady 1 new_peer) 1 =
       \<lparr>Label = ''signalling'', dc_closed = False, onOpenHandler = Some OpenClosure,
        onMessageHandler = Some MessageClosure, onErrorHandler = Some ErrorClosure,
        onCloseHandler = Some CloseClosure\<rparr>"
    by (simp add: onDataChannelReady_def new_peer_def Let_def OnOpen_def OnMessage_def
          OnError_def OnClose_def log_write_def idle_channel_def)
  have other: "channels (onDataChannelReady 1 new_peer) 2 = idle_channel"
    by (simp add: onDataChannelReady_def new_peer_def Let_def OnOpen_def OnMessage_def
          OnError_def OnClose_def log_write_def)
  have "(2::nat) \<noteq> 1" by simp
  from second_channel_ready_closes_bound_channel [OF bound this] bound first other
  show ?thesis by (simp add: fire_def idle_channel_def)
qed

section \<open>Subscribe and Unsubscribe\<close>

text \<open>What \<open>Subscribe\<close> returns on live pointers, whatever the engine answers.\<close>

lemma Subscribe_result:
  assumes "subscribers w s = Some sub" and "publishers w pub = Some pb"
    and "calls w (call sub) = Some cl"
  shows "\<exists>w'. Subscribe eng s pub w = Inr w'
       \<and> subscribers w' = (subscribers w)(s \<mapsto> sub\<lparr>
            s_logger := initLoggingWithTrack cl (pub_Track pb),
            Track := (case NewTrack_failure eng of
                        Some e \<Rightarrow> None
                      | None \<Rightarrow> Some \<lparr>tl_codec = RTPCodecCapability (Codec (pub_Track pb)),
                                       tl_id = ID (pub_Track pb),
                                       tl_streamID = StreamID (pub_Track pb)\<rparr>),
            sender := (case AddTrack_result eng
                              (case NewTrack_failure eng of
                                 Some e \<Rightarrow> None
                               | None \<Rightarrow> Some \<lparr>tl_codec = RTPCodecCapability (Codec (pub_Track pb)),
                                       tl_id = ID (pub_Track pb),
                                       tl_streamID = StreamID (pub_Track pb)\<rparr>) of
                         Inl e \<Rightarrow> None | Inr x \<Rightarrow> Some x),
            publisher := Some pub\<rparr>)
       \<and> publishers w' = (publishers w)(pub \<mapsto> pb\<lparr>pub_subscribers := insert s (pub_subscribers pb)\<rparr>)"
  using assms
  by (auto simp: Subscribe_def Let_def AddSubscriber_def write_log_def call_invoke_def
        NewTrackLocalStaticRTP_def split: option.splits sum.splits)

text \<open>\<open>Call.RemoveSubscriber\<close>, as modelled: what it leaves alone and what it takes the
  subscriber out of.\<close>

lemma RemoveSubscriber_effect:
  assumes "subscribers w s = Some sub" and "calls w c = Some cl"
  shows "subscribers (RemoveSubscriber c s w) = subscribers w"
    and "calls (RemoveSubscriber c s w) =
           (calls w)(c \<mapsto> cl\<lparr>call_subscribers := call_subscribers cl - {s}\<rparr>)"
    and "written (RemoveSubscriber c s w) = written w"
    and "publishers (RemoveSubscriber c s w) p =
           map_option (\<lambda>pb. if publisher sub = Some p
                              then pb\<lparr>pub_subscribers := pub_subscribers pb - {s}\<rparr> else pb)
             (publishers w p)"
  using assms
  by (cases "publishers w p"; auto simp: RemoveSubscriber_def Let_def split: option.splits)+

text \<open>\<open>Unsubscribe\<close> on live pointers: a panic of the engine is its own, and when the
  engine returns (or is not asked, the connection being Closed) it returns the world
  described here.\<close>

lemma Unsubscribe_panics:
  assumes "subscribers w s = Some sub" and "calls w (call sub) = Some cl"
    and "ConnectionState (PeerConnection cl) \<noteq> PeerConnectionStateClosed"
    and "RemoveTrack_result eng (sender sub) = Inl pn"
  shows "Unsubscribe eng s w = Inl pn"
  using assms by (simp add: Unsubscribe_def)

lemma Unsubscribe_returns:
  assumes "subscribers w s = Some sub" and "calls w (call sub) = Some cl"
    and "(if ConnectionState (PeerConnection cl) \<noteq> PeerConnectionStateClosed
          then RemoveTrack_result eng (sender sub) else Inr None) = Inr err"
  shows "\<exists>w'. Unsubscribe eng s w = Inr w'
       \<and> subscribers w' = subscribers w
       \<and> (\<forall>p. publishers w' p =
             map_option (\<lambda>pb. if publisher sub = Some p
                                then pb\<lparr>pub_subscribers := pub_subscribers pb - {s}\<rparr> else pb)
               (publishers w p))
       \<and> calls w' = (calls w)(call sub \<mapsto>
             cl\<lparr>PeerConnection :=
                  (if ConnectionState (PeerConnection cl) \<noteq> PeerConnectionStateClosed
                   then invoke (RemoveTrack (sender sub)) (PeerConnection cl)
                   else PeerConnection cl),
                call_subscribers := call_subscribers cl - {s}\<rparr>)
       \<and> written w' =
           written w @
             (case err of
                None \<Rightarrow> []
              | Some e \<Rightarrow> [LogEntry ErrorLevel (s_logger sub) (Some e) ''failed to remove track'']) @
             [LogEntry InfoLevel (s_logger sub) None ''unsubscribed'']"
proof (cases "ConnectionState (PeerConnection cl) \<noteq> PeerConnectionStateClosed")
  case True
  with assms(3) have ans: "RemoveTrack_result eng (sender sub) = Inr err" by simp
  define w0 where "w0 = call_invoke (call sub) (RemoveTrack (sender sub)) w"
  define w1 where "w1 = (case err of None \<Rightarrow> w0
      | Some e \<Rightarrow> write_log (LogEntry ErrorLevel (s_logger sub) (Some e) ''failed to remove track'') w0)"
  have s1: "subscribers w1 s = Some sub"
    using assms(1,2) by (simp add: w1_def w0_def call_invoke_def write_log_def split: option.splits)
  have c1: "calls w1 (call sub) =
              Some (cl\<lparr>PeerConnection := invoke (RemoveTrack (sender sub)) (PeerConnection cl)\<rparr>)"
    using assms(2) by (simp add: w1_def w0_def call_invoke_def write_log_def split: option.splits)
  have run: "Unsubscribe eng s w =
               Inr (write_log (LogEntry InfoLevel (s_logger sub) None ''unsubscribed'')
                      (RemoveSubscriber (call sub) s w1))"
    using assms(1,2) True ans
    by (cases err) (simp_all add: Unsubscribe_def Let_def w1_def w0_def)
  have p1: "publishers w1 = publishers w" "subscribers w1 = subscribers w"
    "written w1 = written w @ (case err of None \<Rightarrow> []
         | Some e \<Rightarrow> [LogEntry ErrorLevel (s_logger sub) (Some e) ''failed to remove track''])"
    using assms(2) by (simp_all add: w1_def w0_def call_invoke_def write_log_def split: option.splits)
  have k1: "calls w1 = (calls w)(call sub \<mapsto>
              cl\<lparr>PeerConnection := invoke (RemoveTrack (sender sub)) (PeerConnection cl)\<rparr>)"
    using assms(2) by (simp add: w1_def w0_def call_invoke_def write_log_def split: option.splits)
  show ?thesis
    using run True RemoveSubscriber_effect [OF s1 c1] p1 k1
    by (simp add: write_log_def)
next
  case False
  with assms(3) have err: "err = None" by simp
  have run: "Unsubscribe eng s w =
               Inr (write_log (LogEntry InfoLevel (s_logger sub) None ''unsubscribed'')
                      (RemoveSubscriber (call sub) s w))"
    using assms(1,2) False by (simp add: Unsubscribe_def Let_def)
  show ?thesis
    using run False err RemoveSubscriber_effect [OF assms(1,2)]
    by (simp add: write_log_def)
qed

text \<open>
  Claim C2. What \<open>Subscribe\<close> does whatever the engine answers, hence also when the track
  creation or \<open>AddTrack\<close> fails: after logging a failure it carries on. The subscriber's
  triple is set (the track and the sender are \<open>nil\<close> where the engine failed, the
  publisher is the one given), the subscriber is registered in the publisher's live set,
  and the last log line is ``subscribed''.
\<close>

theorem subscribe_attaches_whatever_the_engine_answers:
  assumes "subscribers w s = Some sub" and "publishers w pub = Some pb"
    and "calls w (call sub) = Some cl"
  shows "\<exists>w' sub'.
           Subscribe eng s pub w = Inr w' \<and> subscribers w' s = Some sub'
         \<and> publisher sub' = Some pub
         \<and> Track sub' =
             (case NewTrack_failure eng of
                Some e \<Rightarrow> None
              | None \<Rightarrow> Some \<lparr>tl_codec = RTPCodecCapability (Codec (pub_Track pb)),
                               tl_id = ID (pub_Track pb),
                               tl_streamID = StreamID (pub_Track pb)\<rparr>)
         \<and> sender sub' =
             (case AddTrack_result eng (Track sub') of Inl e \<Rightarrow> None | Inr x \<Rightarrow> Some x)
         \<and> publisher_of s (Inr w') = Some pub
         \<and> s \<in> live_subscribers pub (Inr w')
         \<and> last (written w') =
             LogEntry InfoLevel (initLoggingWithTrack cl (pub_Track pb)) None ''subscribed''"
proof -
  from Subscribe_result [OF assms, of eng] obtain w' where
    w': "Subscribe eng s pub w = Inr w'"
    and subs: "subscribers w' = (subscribers w)(s \<mapsto> sub\<lparr>
            s_logger := initLoggingWithTrack cl (pub_Track pb),
            Track := (case NewTrack_failure eng of
                        Some e \<Rightarrow> None
                      | None \<Rightarrow> Some \<lparr>tl_codec = RTPCodecCapability (Codec (pub_Track pb)),
                                       tl_id = ID (pub_Track pb),
                                       tl_streamID = StreamID (pub_Track pb)\<rparr>),
            sender := (case AddTrack_result eng
                              (case NewTrack_failure eng of
                                 Some e \<Rightarrow> None
                               | None \<Rightarrow> Some \<lparr>tl_codec = RTPCodecCapability (Codec (pub_Track pb)),
                                       tl_id = ID (pub_Track pb),
                                       tl_streamID = StreamID (pub_Track pb)\<rparr>) of
                         Inl e \<Rightarrow> None | Inr x \<Rightarrow> Some x),
            publisher := Some pub\<rparr>)"
    and pubs: "publishers w' = (publishers w)(pub \<mapsto> pb\<lparr>pub_subscribers := insert s (pub_subscribers pb)\<rparr>)"
    by blast
  have said: "last (written w') =
              LogEntry InfoLevel (initLoggingWithTrack cl (pub_Track pb)) None ''subscribed''"
    using w' assms
    by (auto simp: Subscribe_def Let_def write_log_def split: option.splits)
  show ?thesis
    using w' subs pubs said by (simp add: publisher_of_def live_subscribers_def)
qed

text \<open>The connection refuses the new sender: the error is logged, and the subscriber is
  attached all the same, with a track and no sender.\<close>

theorem subscribe_attaches_whatever_the_engine_answers_witness:
  "\<exists>w' sub'.
       Subscribe refusing_engine 1 10 world_with_subscriber = Inr w'
     \<and> subscribers w' 1 = Some sub'
     \<and> publisher sub' = Some 10 \<and> Track sub' = Some relay_track \<and> sender sub' = None
     \<and> 1 \<in> live_subscribers 10 (Inr w')
     \<and> written w' =
         [LogEntry ErrorLevel
            [(''user_id'', ''bob''), (''track_id'', ''audio0''), (''track_kind'', ''audio''),
             (''stream_id'', ''stream0'')]
            (Some (ErrOther ''connection closed'')) ''failed to add track to peer connection'',
          LogEntry InfoLevel
            [(''user_id'', ''bob''), (''track_id'', ''audio0''), (''track_kind'', ''audio''),
             (''stream_id'', ''stream0'')]
            None ''subscribed'']"
proof -
  have a: "subscribers world_with_subscriber 1 = Some fresh_subscriber"
    by (simp add: world_with_subscriber_def)
  have b: "publishers world_with_subscriber 10 =
             Some \<lparr>pub_Track = microphone, pub_subscribers = {}\<rparr>"
    by (simp add: world_with_subscriber_def small_world_def)
  have c: "calls world_with_subscriber (call fresh_subscriber) = Some bobs_call"
    by (simp add: world_with_subscriber_def small_world_def fresh_subscriber_def)
  from subscribe_attaches_whatever_the_engine_answers [OF a b c, of refusing_engine]
  obtain w' sub' where
    run: "Subscribe refusing_engine 1 10 world_with_subscriber = Inr w'"
      "subscribers w' 1 = Some sub'" "publisher sub' = Some 10"
      "1 \<in> live_subscribers 10 (Inr w')"
    and tr: "Track sub' =
             (case NewTrack_failure refusing_engine of
                Some e \<Rightarrow> None
              | None \<Rightarrow> Some \<lparr>tl_codec = RTPCodecCapability
                                          (Codec (pub_Track \<lparr>pub_Track = microphone, pub_subscribers = {}\<rparr>)),
                               tl_id = ID (pub_Track \<lparr>pub_Track = microphone, pub_subscribers = {}\<rparr>),
                               tl_streamID = StreamID (pub_Track \<lparr>pub_Track = microphone, pub_subscribers = {}\<rparr>)\<rparr>)"
    and sd: "sender sub' =
             (case AddTrack_result refusing_engine (Track sub') of Inl e \<Rightarrow> None | Inr x \<Rightarrow> Some x)"
    by blast
  have tr': "Track sub' = Some relay_track"
    using tr by (simp add: refusing_engine_def relay_track_def microphone_def)
  have sd': "sender sub' = None"
    using sd by (simp add: refusing_engine_def)
  have lg: "written w' =
         [LogEntry ErrorLevel
            [(''user_id'', ''bob''), (''track_id'', ''audio0''), (''track_kind'', ''audio''),
             (''stream_id'', ''stream0'')]
            (Some (ErrOther ''connection closed'')) ''failed to add track to peer connection'',
          LogEntry InfoLevel
            [(''user_id'', ''bob''), (''track_id'', ''audio0''), (''track_kind'', ''audio''),
             (''stream_id'', ''stream0'')]
            None ''subscribed'']"
    using run(1)
    by (auto simp: Subscribe_def Let_def AddSubscriber_def write_log_def call_invoke_def
        NewTrackLocalStaticRTP_def initLoggingWithTrack_def WithFields_def refusing_engine_def
        world_with_subscriber_def small_world_def fresh_subscriber_def bobs_call_def
        microphone_def split: option.splits sum.splits)
  from run tr' sd' lg show ?thesis by blast
qed




text \<open>
  Claim C4, amended. When the connection is Closed, or the engine's \<open>RemoveTrack\<close> returns
  on both calls, two calls of \<open>Unsubscribe\<close> in a row on a live subscriber both return, and
  the second changes neither a subscriber (so not the triple), nor a publisher (so not a
  live set), nor the call-level collection of any call. What the second call does again
  is ask a connection that is not Closed to remove the sender.
\<close>

theorem unsubscribe_twice_when_the_engine_answers:
  assumes "subscribers w s = Some sub" and "calls w (call sub) = Some cl"
    and "ConnectionState (PeerConnection cl) = PeerConnectionStateClosed
         \<or> (RemoveTrack_result eng1 (sender sub) = Inr e1
            \<and> RemoveTrack_result eng2 (sender sub) = Inr e2)"
  shows "\<exists>w1 w2.
           Unsubscribe eng1 s w = Inr w1 \<and> Unsubscribe eng2 s w1 = Inr w2
         \<and> subscribers w2 = subscribers w1
         \<and> publishers w2 = publishers w1
         \<and> (\<forall>c. bookkeeping w2 c = bookkeeping w1 c)
         \<and> requested w2 (call sub) =
             requested w1 (call sub) @
               (if ConnectionState (PeerConnection cl) \<noteq> PeerConnectionStateClosed
                then [RemoveTrack (sender sub)] else [])"
proof -
  define cl1 where "cl1 = cl\<lparr>PeerConnection :=
                  (if ConnectionState (PeerConnection cl) \<noteq> PeerConnectionStateClosed
                   then invoke (RemoveTrack (sender sub)) (PeerConnection cl)
                   else PeerConnection cl),
                call_subscribers := call_subscribers cl - {s}\<rparr>"
  from assms(3) obtain a1 where
    ans1: "(if ConnectionState (PeerConnection cl) \<noteq> PeerConnectionStateClosed
            then RemoveTrack_result eng1 (sender sub) else Inr None) = Inr a1"
    by (cases "ConnectionState (PeerConnection cl) = PeerConnectionStateClosed") auto
  from Unsubscribe_returns [OF assms(1,2) ans1] obtain w1 where
    w1: "Unsubscribe eng1 s w = Inr w1" "subscribers w1 = subscribers w"
    and pubs1: "\<forall>p. publishers w1 p =
             map_option (\<lambda>pb. if publisher sub = Some p
                                then pb\<lparr>pub_subscribers := pub_subscribers pb - {s}\<rparr> else pb)
               (publishers w p)"
    and calls1: "calls w1 = (calls w)(call sub \<mapsto> cl1)"
    unfolding cl1_def by blast
  have s1: "subscribers w1 s = Some sub" using w1(2) assms(1) by simp
  have c1: "calls w1 (call sub) = Some cl1" using calls1 by simp
  have st1: "ConnectionState (PeerConnection cl1) = ConnectionState (PeerConnection cl)"
    by (simp add: cl1_def invoke_def)
  from assms(3) obtain a2 where
    ans2: "(if ConnectionState (PeerConnection cl1) \<noteq> PeerConnectionStateClosed
            then RemoveTrack_result eng2 (sender sub) else Inr None) = Inr a2"
    unfolding st1
    by (cases "ConnectionState (PeerConnection cl) = PeerConnectionStateClosed") auto
  from Unsubscribe_returns [OF s1 c1 ans2] obtain w2 where
    w2: "Unsubscribe eng2 s w1 = Inr w2" "subscribers w2 = subscribers w1"
    and pubs2: "\<forall>p. publishers w2 p =
             map_option (\<lambda>pb. if publisher sub = Some p
                                then pb\<lparr>pub_subscribers := pub_subscribers pb - {s}\<rparr> else pb)
               (publishers w1 p)"
    and calls2: "calls w2 = (calls w1)(call sub \<mapsto>
             cl1\<lparr>PeerConnection :=
                  (if ConnectionState (PeerConnection cl1) \<noteq> PeerConnectionStateClosed
                   then invoke (RemoveTrack (sender sub)) (PeerConnection cl1)
                   else PeerConnection cl1),
                call_subscribers := call_subscribers cl1 - {s}\<rparr>)"
    by blast
  have "publishers w2 p = publishers w1 p" for p
    using pubs1 pubs2 by (cases "publishers w p") auto
  then have same_pubs: "publishers w2 = publishers w1" by (rule ext)
  have same_books: "bookkeeping w2 c = bookkeeping w1 c" for c
    using calls1 calls2 by (simp add: bookkeeping_def cl1_def)
  have again: "requested w2 (call sub) =
             requested w1 (call sub) @
               (if ConnectionState (PeerConnection cl) \<noteq> PeerConnectionStateClosed
                then [RemoveTrack (sender sub)] else [])"
    using calls1 calls2 st1 by (simp add: requested_def invoke_def)
  from w1(1) w2 same_pubs same_books again show ?thesis by blast
qed

theorem unsubscribe_twice_when_the_engine_answers_witness:
  "\<exists>w1 w2. Unsubscribe willing_engine 1 attached_world = Inr w1
       \<and> Unsubscribe refusing_engine 1 w1 = Inr w2
       \<and> subscribers w2 = subscribers w1
       \<and> publishers w2 = publishers w1
       \<and> bookkeeping w2 5 = bookkeeping w1 5
       \<and> requested w2 5 = requested w1 5 @ [RemoveTrack (Some 7)]"
proof -
  have a: "subscribers attached_world 1 =
             Some \<lparr>Track = Some relay_track, s_logger = [(''user_id'', ''bob'')],
                   call = 5, sender = Some 7, publisher = Some 10\<rparr>"
    by (simp add: attached_world_def)
  have b: "calls attached_world
             (call \<lparr>Track = Some relay_track, s_logger = [(''user_id'', ''bob'')],
                    call = 5, sender = Some 7, publisher = Some 10\<rparr>) = Some bobs_call"
    by (simp add: attached_world_def)
  have c: "ConnectionState (PeerConnection bobs_call) = PeerConnectionStateClosed
         \<or> (RemoveTrack_result willing_engine
               (sender \<lparr>Track = Some relay_track, s_logger = [(''user_id'', ''bob'')],
                    call = 5, sender = Some 7, publisher = Some 10\<rparr>) = Inr None
            \<and> RemoveTrack_result refusing_engine
               (sender \<lparr>Track = Some relay_track, s_logger = [(''user_id'', ''bob'')],
                    call = 5, sender = Some 7, publisher = Some 10\<rparr>) =
                Inr (Some (ErrOther ''sender not created by connection'')))"
    by (simp add: willing_engine_def refusing_engine_def)
  from unsubscribe_twice_when_the_engine_answers [OF a b c]
  show ?thesis by (simp add: bobs_call_def) blast
qed

text \<open>A subscriber fresh from its constructor, on a connection that holds a transceiver
  without a sender: the first \<open>Unsubscribe\<close> already panics.\<close>

theorem unsubscribe_first_call_panics_counterexample:
  "Unsubscribe receiving_engine 1 world_with_subscriber = Inl NilPointerDereference"
  by (simp add: Unsubscribe_def world_with_subscriber_def small_world_def fresh_subscriber_def
        bobs_call_def receiving_engine_def)

text \<open>
  Claim C10. \<open>Unsubscribe\<close> on a subscriber whose sender is \<open>nil\<close> hands that \<open>nil\<close> to the
  connection's \<open>RemoveTrack\<close> exactly when the connection is not Closed, with no check
  before: what \<open>Unsubscribe\<close> then does is decided by the engine's answer to
  \<open>RemoveTrack(nil)\<close>. An error is logged and the operation goes on to its end; a panic
  is not caught. The sender is \<open>nil\<close> after \<open>NewSubscriber\<close>, and still \<open>nil\<close> after a
  \<open>Subscribe\<close> whose \<open>AddTrack\<close> failed.
\<close>

theorem unsubscribe_hands_nil_sender_to_the_engine:
  assumes "subscribers w s = Some sub" and "sender sub = None"
    and "calls w (call sub) = Some cl"
  shows "(ConnectionState (PeerConnection cl) = PeerConnectionStateClosed \<longrightarrow>
            (\<exists>w'. Unsubscribe eng s w = Inr w'
                 \<and> requested w' (call sub) = requested w (call sub)
                 \<and> written w' =
                     written w @ [LogEntry InfoLevel (s_logger sub) None ''unsubscribed'']))
       \<and> (ConnectionState (PeerConnection cl) \<noteq> PeerConnectionStateClosed \<longrightarrow>
            (case RemoveTrack_result eng None of
               Inl pn \<Rightarrow> Unsubscribe eng s w = Inl pn
             | Inr err \<Rightarrow>
                 (\<exists>w'. Unsubscribe eng s w = Inr w'
                      \<and> requested w' (call sub) = requested w (call sub) @ [RemoveTrack None]
                      \<and> written w' =
                          written w @
                            (case err of
                               None \<Rightarrow> []
                             | Some e \<Rightarrow> [LogEntry ErrorLevel (s_logger sub) (Some e)
                                            ''failed to remove track'']) @
                            [LogEntry InfoLevel (s_logger sub) None ''unsubscribed''])))
       \<and> (\<forall>addr c w0 cl0. calls w0 c = Some cl0 \<longrightarrow>
            (\<exists>w1 sub1. NewSubscriber addr c w0 = Inr w1 \<and> subscribers w1 addr = Some sub1
                      \<and> sender sub1 = None))
       \<and> (\<forall>eng0 pub pb e. publishers w pub = Some pb \<and> (\<forall>t. AddTrack_result eng0 t = Inl e) \<longrightarrow>
            (\<exists>w1 sub1. Subscribe eng0 s pub w = Inr w1 \<and> subscribers w1 s = Some sub1
                      \<and> sender sub1 = None))"
proof -
  have closed: "\<exists>w'. Unsubscribe eng s w = Inr w'
                 \<and> requested w' (call sub) = requested w (call sub)
                 \<and> written w' =
                     written w @ [LogEntry InfoLevel (s_logger sub) None ''unsubscribed'']"
    if st: "ConnectionState (PeerConnection cl) = PeerConnectionStateClosed"
  proof -
    have "(if ConnectionState (PeerConnection cl) \<noteq> PeerConnectionStateClosed
           then RemoveTrack_result eng (sender sub) else Inr None) = Inr None"
      using st by simp
    from Unsubscribe_returns [OF assms(1,3) this] st assms(3) show ?thesis
      by (auto simp: requested_def)
  qed
  have opened: "case RemoveTrack_result eng None of
               Inl pn \<Rightarrow> Unsubscribe eng s w = Inl pn
             | Inr err \<Rightarrow>
                 (\<exists>w'. Unsubscribe eng s w = Inr w'
                      \<and> requested w' (call sub) = requested w (call sub) @ [RemoveTrack None]
                      \<and> written w' =
                          written w @
                            (case err of
                               None \<Rightarrow> []
                             | Some e \<Rightarrow> [LogEntry ErrorLevel (s_logger sub) (Some e)
                                            ''failed to remove track'']) @
                            [LogEntry InfoLevel (s_logger sub) None ''unsubscribed''])"
    if st: "ConnectionState (PeerConnection cl) \<noteq> PeerConnectionStateClosed"
  proof (cases "RemoveTrack_result eng None")
    case (Inl pn)
    with Unsubscribe_panics [OF assms(1,3) st, of eng pn] assms(2) show ?thesis by simp
  next
    case (Inr err)
    then have "(if ConnectionState (PeerConnection cl) \<noteq> PeerConnectionStateClosed
           then RemoveTrack_result eng (sender sub) else Inr None) = Inr err"
      using st assms(2) by simp
    from Unsubscribe_returns [OF assms(1,3) this] st assms(2,3) Inr show ?thesis
      by (auto simp: requested_def invoke_def)
  qed
  have fresh: "\<exists>w1 sub1. NewSubscriber addr c w0 = Inr w1 \<and> subscribers w1 addr = Some sub1
                      \<and> sender sub1 = None"
    if "calls w0 c = Some cl0" for addr c w0 cl0
    using that by (simp add: NewSubscriber_def)
  have failed: "\<exists>w1 sub1. Subscribe eng0 s pub w = Inr w1 \<and> subscribers w1 s = Some sub1
                      \<and> sender sub1 = None"
    if "publishers w pub = Some pb" and "\<forall>t. AddTrack_result eng0 t = Inl e" for eng0 pub pb e
    using Subscribe_result [OF assms(1) that(1) assms(3), of eng0] that(2) by auto
  from closed opened fresh failed show ?thesis by blast
qed

theorem unsubscribe_hands_nil_sender_to_the_engine_witness:
  "\<exists>w1 w2. NewSubscriber 1 5 small_world = Inr w1
       \<and> Unsubscribe refusing_engine 1 w1 = Inr w2
       \<and> requested w2 5 = [RemoveTrack None]
       \<and> written w2 =
           [LogEntry ErrorLevel [(''user_id'', ''bob'')]
              (Some (ErrOther ''sender not created by connection'')) ''failed to remove track'',
            LogEntry InfoLevel [(''user_id'', ''bob'')] None ''unsubscribed'']
       \<and> Unsubscribe receiving_engine 1 w1 = Inl NilPointerDereference
       \<and> Unsubscribe receiving_engine 1 half_attached_world = Inl NilPointerDereference"
proof -
  define sub where "sub = \<lparr>Track = None, s_logger = [(''user_id'', ''bob'')], call = 5,
                           sender = None, publisher = None\<rparr>"
  define w1 where "w1 = small_world\<lparr>subscribers := (subscribers small_world)(1 \<mapsto> sub)\<rparr>"
  have new: "NewSubscriber 1 5 small_world = Inr w1"
    by (simp add: NewSubscriber_def small_world_def bobs_call_def w1_def sub_def)
  have a: "subscribers w1 1 = Some sub" by (simp add: w1_def)
  have b: "sender sub = None" by (simp add: sub_def)
  have c: "calls w1 (call sub) = Some bobs_call" by (simp add: w1_def sub_def small_world_def)
  have st: "ConnectionState (PeerConnection bobs_call) \<noteq> PeerConnectionStateClosed"
    by (simp add: bobs_call_def)
  from unsubscribe_hands_nil_sender_to_the_engine [OF a b c, of refusing_engine] st
  obtain w2 where
    w2: "Unsubscribe refusing_engine 1 w1 = Inr w2"
      "requested w2 (call sub) = requested w1 (call sub) @ [RemoveTrack None]"
      "written w2 =
         written w1 @
           [LogEntry ErrorLevel (s_logger sub)
              (Some (ErrOther ''sender not created by connection'')) ''failed to remove track''] @
           [LogEntry InfoLevel (s_logger sub) None ''unsubscribed'']"
    by (auto simp: refusing_engine_def)
  have ops: "requested w2 5 = [RemoveTrack None]"
    using w2(2) by (simp add: sub_def requested_def w1_def small_world_def bobs_call_def)
  have lg: "written w2 =
           [LogEntry ErrorLevel [(''user_id'', ''bob'')]
              (Some (ErrOther ''sender not created by connection'')) ''failed to remove track'',
            LogEntry InfoLevel [(''user_id'', ''bob'')] None ''unsubscribed'']"
    using w2(3) by (simp add: sub_def w1_def small_world_def)
  from unsubscribe_hands_nil_sender_to_the_engine [OF a b c, of receiving_engine] st
  have pn1: "Unsubscribe receiving_engine 1 w1 = Inl NilPointerDereference"
    by (simp add: receiving_engine_def)
  have a': "subscribers half_attached_world 1 =
              Some \<lparr>Track = Some relay_track, s_logger = [(''user_id'', ''bob'')],
                     call = 5, sender = None, publisher = Some 10\<rparr>"
    by (simp add: half_attached_world_def)
  have c': "calls half_attached_world
              (call \<lparr>Track = Some relay_track, s_logger = [(''user_id'', ''bob'')],
                     call = 5, sender = None, publisher = Some 10\<rparr>) = Some bobs_call"
    by (simp add: half_attached_world_def)
  from unsubscribe_hands_nil_sender_to_the_engine [OF a' _ c', of receiving_engine] st
  have pn2: "Unsubscribe receiving_engine 1 half_attached_world = Inl NilPointerDereference"
    by (simp add: receiving_engine_def)
  from new w2(1) ops lg pn1 pn2 show ?thesis by blast
qed

section \<open>Identity of derived tracks\<close>

text \<open>
  Claim C9. The relay track \<open>onRtpTrackReceived\<close> creates and announces has the codec
  capability, the track ID and the stream ID of the remote track; the track \<open>Subscribe\<close>
  creates, hands to \<open>AddTrack\<close> and stores in the subscriber has the codec capability,
  the track ID and the stream ID of the publisher's track.
\<close>

theorem derived_tracks_keep_identity:
  "(\<exists>localTrack.
       snd (onRtpTrackReceived None remoteTrack p) = Some localTrack
     \<and> last (sink (fst (onRtpTrackReceived None remoteTrack p))) = NewTrackPublished localTrack
     \<and> tl_codec localTrack = RTPCodecCapability (Codec remoteTrack)
     \<and> tl_id localTrack = ID remoteTrack
     \<and> tl_streamID localTrack = StreamID remoteTrack)
   \<and> (subscribers w s = Some sub \<and> publishers w pub = Some pb \<and> calls w (call sub) = Some cl
        \<and> NewTrack_failure eng = None \<longrightarrow>
       (\<exists>w' sub' track.
           Subscribe eng s pub w = Inr w' \<and> subscribers w' s = Some sub'
         \<and> Track sub' = Some track
         \<and> last (requested w' (call sub)) = AddTrack (Some track)
         \<and> tl_codec track = RTPCodecCapability (Codec (pub_Track pb))
         \<and> tl_id track = ID (pub_Track pb)
         \<and> tl_streamID track = StreamID (pub_Track pb)))"
proof -
  have peer: "\<exists>localTrack.
       snd (onRtpTrackReceived None remoteTrack p) = Some localTrack
     \<and> last (sink (fst (onRtpTrackReceived None remoteTrack p))) = NewTrackPublished localTrack
     \<and> tl_codec localTrack = RTPCodecCapability (Codec remoteTrack)
     \<and> tl_id localTrack = ID remoteTrack
     \<and> tl_streamID localTrack = StreamID remoteTrack"
    by (simp add: onRtpTrackReceived_def NewTrackLocalStaticRTP_def Send_def)
  have main: "\<exists>w' sub' track.
           Subscribe eng s pub w = Inr w' \<and> subscribers w' s = Some sub'
         \<and> Track sub' = Some track
         \<and> last (requested w' (call sub)) = AddTrack (Some track)
         \<and> tl_codec track = RTPCodecCapability (Codec (pub_Track pb))
         \<and> tl_id track = ID (pub_Track pb)
         \<and> tl_streamID track = StreamID (pub_Track pb)"
    if "subscribers w s = Some sub" "publishers w pub = Some pb" "calls w (call sub) = Some cl"
      "NewTrack_failure eng = None"
    using that
    by (auto simp: Subscribe_def Let_def AddSubscriber_def write_log_def call_invoke_def
        NewTrackLocalStaticRTP_def requested_def invoke_def split: option.splits sum.splits)
  from peer main show ?thesis by blast
qed

theorem derived_tracks_keep_identity_witness:
  "snd (onRtpTrackReceived None microphone new_peer) = Some relay_track
   \<and> (\<exists>w' sub'. Subscribe willing_engine 1 10 world_with_subscriber = Inr w'
         \<and> subscribers w' 1 = Some sub' \<and> Track sub' = Some relay_track
         \<and> requested w' 5 = [AddTrack (Some relay_track)])"
proof -
  note inst = derived_tracks_keep_identity [of microphone new_peer world_with_subscriber 1
      fresh_subscriber 10 "\<lparr>pub_Track = microphone, pub_subscribers = {}\<rparr>" bobs_call willing_engine]
  have a: "subscribers world_with_subscriber 1 = Some fresh_subscriber"
    by (simp add: world_with_subscriber_def)
  have b: "publishers world_with_subscriber 10 = Some \<lparr>pub_Track = microphone, pub_subscribers = {}\<rparr>"
    by (simp add: world_with_subscriber_def small_world_def)
  have c: "calls world_with_subscriber (call fresh_subscriber) = Some bobs_call"
    by (simp add: world_with_subscriber_def small_world_def fresh_subscriber_def)
  have d: "NewTrack_failure willing_engine = None" by (simp add: willing_engine_def)
  from inst obtain localTrack where
    lt: "snd (onRtpTrackReceived None microphone new_peer) = Some localTrack"
      "tl_codec localTrack = RTPCodecCapability (Codec microphone)"
      "tl_id localTrack = ID microphone" "tl_streamID localTrack = StreamID microphone"
    by blast
  then have lt': "localTrack = relay_track"
    by (simp add: relay_track_def microphone_def)
  from inst a b c d obtain w' sub' track where
    sb: "Subscribe willing_engine 1 10 world_with_subscriber = Inr w'"
      "subscribers w' 1 = Some sub'" "Track sub' = Some track"
      "last (requested w' (call fresh_subscriber)) = AddTrack (Some track)"
      "tl_codec track = RTPCodecCapability (Codec (pub_Track \<lparr>pub_Track = microphone, pub_subscribers = {}\<rparr>))"
      "tl_id track = ID (pub_Track \<lparr>pub_Track = microphone, pub_subscribers = {}\<rparr>)"
      "tl_streamID track = StreamID (pub_Track \<lparr>pub_Track = microphone, pub_subscribers = {}\<rparr>)"
    by blast
  then have tr: "track = relay_track"
    by (simp add: relay_track_def microphone_def)
  have ops: "requested w' 5 = [AddTrack (Some relay_track)]"
    using sb(1) a b c
    by (auto simp: Subscribe_def Let_def AddSubscriber_def write_log_def call_invoke_def
        NewTrackLocalStaticRTP_def requested_def invoke_def willing_engine_def
        world_with_subscriber_def small_world_def fresh_subscriber_def bobs_call_def
        relay_track_def microphone_def split: option.splits sum.splits)
  from lt(1) lt' sb(1,2,3) tr ops show ?thesis by blast
qed

end
